theory Spec2Isabelle
  imports Main
begin

section \<open>Literature review assistant: backend.py and frontend.py\<close>

text \<open>
  The repository is a thin layer over three external collaborators: the arXiv client
  library, the agent framework with its hosted language model, and the page toolkit
  with the asyncio event loop. Each of them enters the model as a parameter: what the
  collaborator hands back to the code is given, and the definitions below are what the
  code of the repository does with it.
\<close>

subsection \<open>Exceptions and generators\<close>

text \<open>
  \<open>RuntimeError\<close> stands for Python's RuntimeError and its subclasses (what
  \<^verbatim>\<open>except RuntimeError\<close> catches); \<open>OtherError\<close> for every other
  exception, with its message.
\<close>

datatype error = RuntimeError | OtherError string

text \<open>
  A finite Python generator, as its consumer sees it: it yields a value and goes on,
  or it is exhausted, or it raises.
\<close>

datatype 'a gen = Done | Yield 'a "'a gen" | Raise error

fun yielded :: "'a gen \<Rightarrow> 'a list" where
  "yielded Done = []"
| "yielded (Yield x g) = x # yielded g"
| "yielded (Raise e) = []"

fun raised :: "'a gen \<Rightarrow> error option" where
  "raised Done = None"
| "raised (Yield x g) = raised g"
| "raised (Raise e) = Some e"

subsection \<open>Decimal formatting and \<open>strftime("%Y-%m-%d")\<close>\<close>

definition digit_char :: "nat \<Rightarrow> char" where
  "digit_char d = ''0123456789'' ! d"

function decimal :: "nat \<Rightarrow> string" where
  "decimal n = (if n < 10 then [digit_char n] else decimal (n div 10) @ [digit_char (n mod 10)])"
  by pat_completeness auto
termination
  by (relation "measure id") auto

declare decimal.simps [simp del]

definition zero_pad :: "nat \<Rightarrow> string \<Rightarrow> string" where
  "zero_pad w s = replicate (w - length s) (CHR ''0'') @ s"

text \<open>
  The date part of \<open>datetime.datetime\<close>; the time of day plays no part in the
  format \<open>%Y-%m-%d\<close>. Month and day are written with two digits. The year is written
  as the C library writes it, which on Linux is without padding: the year 999 gives
  \<open>999-01-05\<close>.
\<close>

record datetime =
  year :: nat
  month :: nat
  day :: nat

definition strftime_ymd :: "datetime \<Rightarrow> string" where
  "strftime_ymd d =
     decimal (year d) @ ''-'' @ zero_pad 2 (decimal (month d)) @ ''-''
       @ zero_pad 2 (decimal (day d))"



subsection \<open>The search tool: \<open>arxiv_search\<close>\<close>

text \<open>
  One result of the arXiv client, with the attributes the tool reads. An author is an
  object with a name; \<open>pdf_url\<close> is optional in the client library.
\<close>

record author =
  author_name :: string

record arxiv_result =
  r_title :: string
  r_authors :: "author list"
  r_published :: datetime
  r_summary :: string
  r_pdf_url :: "string option"

text \<open>The dictionary the tool builds for one result, with its five keys.\<close>

record paper =
  title :: string
  authors :: "string list"
  published :: string
  summary :: string
  pdf_url :: "string option"

definition paper_of :: "arxiv_result \<Rightarrow> paper" where
  "paper_of r =
     \<lparr>title = r_title r,
      authors = map author_name (r_authors r),
      published = strftime_ymd (r_published r),
      summary = r_summary r,
      pdf_url = r_pdf_url r\<rparr>"

text \<open>
  The search service, seen from the tool. \<open>searches\<close> lists the searches submitted so
  far, each through a client built for it; \<open>feed k query max_results\<close> is what
  \<^verbatim>\<open>client.results(search)\<close> yields for the search number \<open>k\<close>, in the order
  of relevance the service gives.
\<close>

record arxiv_service =
  searches :: "(string \<times> int) list"
  feed :: "nat \<Rightarrow> string \<Rightarrow> int \<Rightarrow> arxiv_result gen"

text \<open>The loop \<^verbatim>\<open>for result in client.results(search): papers.append(...)\<close>.\<close>

fun collect_papers :: "paper list \<Rightarrow> arxiv_result gen \<Rightarrow> error + paper list" where
  "collect_papers papers Done = Inr papers"
| "collect_papers papers (Yield result g) = collect_papers (papers @ [paper_of result]) g"
| "collect_papers papers (Raise e) = Inl e"

definition arxiv_search ::
  "string \<Rightarrow> int \<Rightarrow> arxiv_service \<Rightarrow> (error + paper list) \<times> arxiv_service" where
  "arxiv_search query max_results w =
     (let results = feed w (length (searches w)) query max_results;
          w' = w\<lparr>searches := searches w @ [(query, max_results)]\<rparr>
      in (collect_papers [] results, w'))"

subsection \<open>The agents and the team: \<open>build_team\<close>\<close>

definition newline :: string where
  "newline = [CHR 0x0A]"

definition spaces :: "nat \<Rightarrow> string" where
  "spaces n = replicate n (CHR '' '')"

record function_tool =
  func :: string
  tool_description :: string

definition arxiv_tool :: function_tool where
  "arxiv_tool =
     \<lparr>func = ''arxiv_search'',
      tool_description =
        newline @ spaces 12 @ ''Searches arXiv and returns up to *max_results* papers.'' @ newline
        @ newline @ spaces 12
        @ ''Each paper includes: title, authors, published date, abstract, and PDF link.''
        @ newline @ spaces 7\<rparr>"

record llm_client =
  model :: string
  api_key :: string

text \<open>
  An \<open>AssistantAgent\<close> as \<open>build_team\<close> configures it. \<open>tools\<close> is empty and
  \<open>reflect_on_tool_use\<close> is \<open>None\<close> where the argument is not passed.
\<close>

record assistant_agent =
  name :: string
  description :: string
  system_message :: string
  tools :: "function_tool list"
  model_client :: llm_client
  reflect_on_tool_use :: "bool option"

text \<open>
  A \<open>RoundRobinGroupChat\<close> as \<open>build_team\<close> configures it: no termination condition is
  passed.
\<close>

record team =
  participants :: "assistant_agent list"
  max_turns :: "nat option"
  termination_condition :: "string option"

definition search_agent :: "llm_client \<Rightarrow> assistant_agent" where
  "search_agent llm =
     \<lparr>name = ''search_agent'',
      description = ''Crafts arXiv queries and retrieves candidate papers.'',
      system_message =
        ''Given a user topic, think of the best arXiv query and call the ''
        @ ''provided tool. Always fetch five-times the papers requested so ''
        @ ''that you can down-select the most relevant ones. When the tool ''
        @ ''returns, choose exactly the number of papers requested and pass ''
        @ ''them as concise JSON to the summarizer.'',
      tools = [arxiv_tool],
      model_client = llm,
      reflect_on_tool_use = Some True\<rparr>"

definition summarizer_agent :: "llm_client \<Rightarrow> assistant_agent" where
  "summarizer_agent llm =
     \<lparr>name = ''summarizer_agent'',
      description = ''Produces a short Markdown review from provided papers.'',
      system_message =
        newline @ spaces 16
        @ ''You are a research expert. Given a JSON list of papers, write a short literature review in Markdown:''
        @ newline @ newline @ spaces 16
        @ ''1. Start with a 2-3 sentence intro about the topic.'' @ newline @ spaces 16
        @ ''2. For each paper, add a bullet with:'' @ newline @ spaces 21
        @ ''- Title (as a Markdown link)'' @ newline @ spaces 21
        @ ''- Authors'' @ newline @ spaces 21
        @ ''- The problem it addresses'' @ newline @ spaces 21
        @ ''- Its main contribution'' @ newline @ spaces 16
        @ ''3. End with one sentence that sums up the key takeaway.'' @ newline
        @ newline @ spaces 12,
      tools = [],
      model_client = llm,
      reflect_on_tool_use = None\<rparr>"

definition build_team :: "string \<Rightarrow> team" where
  "build_team m =
     (let llm_client = \<lparr>model = m, api_key = ''your-key-here''\<rparr>
      in \<lparr>participants = [search_agent llm_client, summarizer_agent llm_client],
          max_turns = Some 2,
          termination_condition = None\<rparr>)"

subsection \<open>The conversation as lines: \<open>run_litrev\<close>\<close>

text \<open>
  What \<^verbatim>\<open>team.run_stream\<close> yields: chat messages, the events of an agent's inner
  tool loop, and the task result that closes the stream. Each carries the label of its
  source and its content as text; only the class matters to \<open>run_litrev\<close>.
\<close>

datatype message =
    TextMessage (source: string) (content: string)
  | ToolCallRequestEvent string string
  | ToolCallExecutionEvent string string
  | ToolCallSummaryMessage string string
  | ThoughtEvent string string
  | MemoryQueryEvent string string
  | ModelClientStreamingChunkEvent string string
  | StopMessage string string
  | HandoffMessage string string
  | TaskResult "string option"

definition str_int :: "int \<Rightarrow> string" where
  "str_int i = (if i < 0 then ''-'' @ decimal (nat (- i)) else decimal (nat i))"

definition task_prompt :: "string \<Rightarrow> int \<Rightarrow> string" where
  "task_prompt topic num_papers =
     ''Conduct a literature review on **'' @ topic @ ''** and return exactly ''
       @ str_int num_papers @ '' papers.''"

definition frame_of :: "message \<Rightarrow> string" where
  "frame_of msg = source msg @ '': '' @ content msg"

text \<open>
  The loop \<^verbatim>\<open>async for msg in ...: if isinstance(msg, TextMessage): yield ...\<close>.
  An exception of the stream ends the generator with that exception.
\<close>

fun litrev_frames :: "message gen \<Rightarrow> string gen" where
  "litrev_frames Done = Done"
| "litrev_frames (Yield msg g) =
     (if is_TextMessage msg then Yield (frame_of msg) (litrev_frames g) else litrev_frames g)"
| "litrev_frames (Raise e) = Raise e"

text \<open>
  \<open>run_stream\<close> is the framework: the stream it produces for a team and a task.
\<close>

definition run_litrev ::
  "string \<Rightarrow> int \<Rightarrow> string \<Rightarrow> (team \<Rightarrow> string \<Rightarrow> message gen) \<Rightarrow> string gen" where
  "run_litrev topic num_papers m run_stream =
     (let team = build_team m
      in litrev_frames (run_stream team (task_prompt topic num_papers)))"

subsection \<open>The page: frontend.py\<close>

text \<open>
  The white space that \<open>str.strip\<close> removes, among the code points below 256, and
  \<^verbatim>\<open>frame.split(":", 1)\<close>: the text before the first colon, and the text after it
  when there is a colon.
\<close>

definition py_isspace :: "char \<Rightarrow> bool" where
  "py_isspace c = (of_char c \<in> {9, 10, 11, 12, 13, 28, 29, 30, 31, 32, 133, 160 :: nat})"

definition strip :: "string \<Rightarrow> string" where
  "strip s = rev (dropWhile py_isspace (rev (dropWhile py_isspace s)))"

definition split_colon :: "string \<Rightarrow> string \<times> string option" where
  "split_colon frame =
     (takeWhile (\<lambda>c. c \<noteq> CHR '':'') frame,
      case dropWhile (\<lambda>c. c \<noteq> CHR '':'') frame of [] \<Rightarrow> None | _ # rest \<Rightarrow> Some rest)"

definition frame_markdown :: "string \<Rightarrow> string" where
  "frame_markdown frame =
     (let (role, rest) = split_colon frame;
          content = (case rest of Some r \<Rightarrow> strip r | None \<Rightarrow> [])
      in ''**'' @ role @ ''**: '' @ content)"

datatype element =
    PageConfig string
  | Title string
  | TextInput string
  | Slider string int int int
  | Button string
  | Spinner string
  | Container
  | ChatMarkdown string string
  | Success string

datatype asyncio_call =
    AsyncioRun
  | NewEventLoop nat
  | SetEventLoop nat
  | RunUntilComplete nat
  | LoopClose nat

text \<open>
  What one run of the script has done so far: the elements put on the page, the calls of
  \<open>run_litrev\<close> (topic and count), the calls into asyncio, the number of event loops the
  script created and the loop it installed as the current one.
\<close>

record shell =
  page :: "element list"
  pipeline_calls :: "(string \<times> int) list"
  asyncio_calls :: "asyncio_call list"
  loops_created :: nat
  current_loop :: "nat option"

text \<open>The values the three controls return in this run of the script.\<close>

record widgets =
  query :: string
  n_papers :: int
  clicked :: bool

text \<open>
  What happens when \<^verbatim>\<open>_runner()\<close> is handed to an event loop: the entry point raises
  before the coroutine runs, or the coroutine runs against the framework's stream.
\<close>

datatype attempt = NotStarted error | Started "team \<Rightarrow> string \<Rightarrow> message gen"

text \<open>
  The surroundings of one run of the script: whether an event loop is already running in
  the thread, and the framework's stream for the first and for the second start of the
  request.
\<close>

record environment =
  loop_running :: bool
  first_stream :: "team \<Rightarrow> string \<Rightarrow> message gen"
  second_stream :: "team \<Rightarrow> string \<Rightarrow> message gen"

text \<open>
  \<open>asyncio.run\<close> and \<open>loop.run_until_complete\<close> both raise RuntimeError before the
  coroutine starts when an event loop is already running in the thread; otherwise they
  run the coroutine to its end.
\<close>

definition asyncio_run :: "environment \<Rightarrow> attempt" where
  "asyncio_run env =
     (if loop_running env then NotStarted RuntimeError else Started (first_stream env))"

definition run_until_complete :: "environment \<Rightarrow> attempt" where
  "run_until_complete env =
     (if loop_running env then NotStarted RuntimeError else Started (second_stream env))"

fun render_frames :: "string gen \<Rightarrow> shell \<Rightarrow> error option \<times> shell" where
  "render_frames Done s = (None, s)"
| "render_frames (Yield frame g) s =
     render_frames g (s\<lparr>page := page s @ [ChatMarkdown ''assistant'' (frame_markdown frame)]\<rparr>)"
| "render_frames (Raise e) s = (Some e, s)"

definition runner ::
  "widgets \<Rightarrow> (team \<Rightarrow> string \<Rightarrow> message gen) \<Rightarrow> shell \<Rightarrow> error option \<times> shell" where
  "runner w run_stream s =
     render_frames (run_litrev (query w) (n_papers w) ''gpt-4o-mini'' run_stream)
       (s\<lparr>page := page s @ [Container],
          pipeline_calls := pipeline_calls s @ [(query w, n_papers w)]\<rparr>)"

fun run_attempt :: "attempt \<Rightarrow> widgets \<Rightarrow> shell \<Rightarrow> error option \<times> shell" where
  "run_attempt (NotStarted e) w s = (Some e, s)"
| "run_attempt (Started run_stream) w s = runner w run_stream s"

definition start_page :: shell where
  "start_page =
     \<lparr>page = [PageConfig ''Literature Review Assistant'', Title ''Literature Review Assistant'',
              TextInput ''Research topic'', Slider ''Number of papers'' 1 10 5, Button ''Search''],
      pipeline_calls = [], asyncio_calls = [], loops_created = 0, current_loop = None\<rparr>"

definition success :: "shell \<Rightarrow> shell" where
  "success s = s\<lparr>page := page s @ [Success ''Review completed!'']\<rparr>"

text \<open>
  The script, top to bottom. The result is the exception that leaves the script, if any,
  and what the run has done.
\<close>

definition frontend :: "widgets \<Rightarrow> environment \<Rightarrow> error option \<times> shell" where
  "frontend w env =
     (if clicked w \<and> query w \<noteq> [] then
        (let s1 = start_page\<lparr>page := page start_page @ [Spinner ''Working...'']\<rparr>;
             s2 = s1\<lparr>asyncio_calls := asyncio_calls s1 @ [AsyncioRun]\<rparr>
         in case run_attempt (asyncio_run env) w s2 of
              (None, s3) \<Rightarrow> (None, success s3)
            | (Some RuntimeError, s3) \<Rightarrow>
                (let loop = loops_created s3;
                     s4 = s3\<lparr>loops_created := Suc loop,
                             asyncio_calls := asyncio_calls s3 @ [NewEventLoop loop]\<rparr>;
                     s5 = s4\<lparr>current_loop := Some loop,
                             asyncio_calls := asyncio_calls s4 @ [SetEventLoop loop]\<rparr>;
                     s6 = s5\<lparr>asyncio_calls := asyncio_calls s5 @ [RunUntilComplete loop]\<rparr>
                 in case run_attempt (run_until_complete env) w s6 of
                      (None, s7) \<Rightarrow> (None, success s7)
                    | (Some e, s7) \<Rightarrow> (Some e, s7))
            | (Some e, s3) \<Rightarrow> (Some e, s3))
      else (None, start_page))"


subsection \<open>What the collaborators promise\<close>



subsection \<open>Concrete services, streams and requests\<close>



definition dated_result :: arxiv_result where
  "dated_result =
     \<lparr>r_title = ''Attention Is All You Need'',
      r_authors = [\<lparr>author_name = ''A. Vaswani''\<rparr>, \<lparr>author_name = ''N. Shazeer''\<rparr>],
      r_published = \<lparr>year = 2017, month = 6, day = 12\<rparr>,
      r_summary = ''The Transformer.'', r_pdf_url = Some ''https://arxiv.org/pdf/1706.03762''\<rparr>"


definition empty_service :: arxiv_service where
  "empty_service = \<lparr>searches = [], feed = (\<lambda>k q n. Done)\<rparr>"

definition changing_service :: arxiv_service where
  "changing_service =
     \<lparr>searches = [], feed = (\<lambda>k q n. if k = 0 then Done else Yield dated_result Done)\<rparr>"

definition idle_stream :: "team \<Rightarrow> string \<Rightarrow> message gen" where
  "idle_stream t task = Yield (TextMessage ''user'' task) (Yield (TaskResult None) Done)"

definition tool_stream :: "team \<Rightarrow> string \<Rightarrow> message gen" where
  "tool_stream t task =
     Yield (TextMessage ''user'' ''topic'')
       (Yield (ToolCallRequestEvent ''search_agent'' ''arxiv_search'')
         (Yield (ToolCallExecutionEvent ''search_agent'' ''[]'')
           (Yield (TextMessage ''search_agent'' ''[]'')
             (Yield (TextMessage ''summarizer_agent'' ''# Review'')
               (Yield (TaskResult None) Done)))))"

definition blank_request :: widgets where
  "blank_request = \<lparr>query = [], n_papers = 5, clicked = True\<rparr>"


definition failing_stream :: "team \<Rightarrow> string \<Rightarrow> message gen" where
  "failing_stream t task = Yield (TextMessage ''user'' task) (Raise RuntimeError)"



definition retry_environment :: environment where
  "retry_environment =
     \<lparr>loop_running = False, first_stream = failing_stream, second_stream = idle_stream\<rparr>"

section \<open>Properties\<close>

subsection \<open>Auxiliary facts\<close>














lemma searches_arxiv_search:
  "searches (snd (arxiv_search q n w)) = searches w @ [(q, n)]"
  by (simp add: arxiv_search_def)

lemma yielded_litrev_frames:
  "yielded (litrev_frames g) = map frame_of (filter is_TextMessage (yielded g))"
  by (induction g rule: litrev_frames.induct) simp_all

lemma raised_litrev_frames: "raised (litrev_frames g) = raised g"
  by (induction g rule: litrev_frames.induct) simp_all





subsection \<open>The search tool\<close>




text \<open>
  C6. When the service has no result for the search, \<open>arxiv_search\<close> returns the empty
  list and raises nothing.
\<close>

theorem arxiv_search_no_results:
  "feed w (length (searches w)) q n = Done \<Longrightarrow> fst (arxiv_search q n w) = Inr []"
  by (simp add: arxiv_search_def)

theorem arxiv_search_no_results_witness:
  "feed empty_service (length (searches empty_service)) ''quantum gravity'' 5 = Done
   \<and> fst (arxiv_search ''quantum gravity'' 5 empty_service) = Inr []"
  using arxiv_search_no_results [of empty_service "''quantum gravity''" 5]
  by (simp add: empty_service_def)

text \<open>
  C5. \<open>arxiv_search\<close> keeps nothing between calls. Two calls with the same query and
  \<open>max_results\<close> submit two searches, each call returns what the service yields for its
  own search, and there is a service for which the two results differ.
\<close>

theorem arxiv_search_no_caching:
  "searches (snd (arxiv_search q n (snd (arxiv_search q n w)))) = searches w @ [(q, n), (q, n)]
   \<and> fst (arxiv_search q n w) = collect_papers [] (feed w (length (searches w)) q n)
   \<and> fst (arxiv_search q n (snd (arxiv_search q n w)))
       = collect_papers [] (feed w (Suc (length (searches w))) q n)
   \<and> (\<exists>w'. fst (arxiv_search q n (snd (arxiv_search q n w'))) \<noteq> fst (arxiv_search q n w'))"
proof -
  have "fst (arxiv_search q n (snd (arxiv_search q n changing_service)))
          \<noteq> fst (arxiv_search q n changing_service)"
    by (simp add: arxiv_search_def changing_service_def)
  then have "\<exists>w'. fst (arxiv_search q n (snd (arxiv_search q n w'))) \<noteq> fst (arxiv_search q n w')"
    by blast
  moreover have "fst (arxiv_search q n (snd (arxiv_search q n w)))
       = collect_papers [] (feed w (Suc (length (searches w))) q n)"
    by (simp add: arxiv_search_def)
  moreover have "fst (arxiv_search q n w) = collect_papers [] (feed w (length (searches w)) q n)"
    by (simp add: arxiv_search_def)
  ultimately show ?thesis
    by (simp add: searches_arxiv_search)
qed

theorem arxiv_search_no_caching_witness:
  "searches (snd (arxiv_search ''llm'' 5 (snd (arxiv_search ''llm'' 5 changing_service))))
     = [(''llm'', 5), (''llm'', 5)]
   \<and> fst (arxiv_search ''llm'' 5 changing_service) = Inr []
   \<and> fst (arxiv_search ''llm'' 5 (snd (arxiv_search ''llm'' 5 changing_service)))
       = Inr [paper_of dated_result]"
  using arxiv_search_no_caching [of "''llm''" 5 changing_service]
  by (simp add: changing_service_def)

subsection \<open>The team and the transcript\<close>

text \<open>
  C9. Whatever model identifier \<open>build_team\<close> is given, the model client of both agents
  carries the literal credential \<open>your-key-here\<close>; the identifier is all that
  \<open>build_team\<close> takes from outside.
\<close>

theorem build_team_api_key:
  "map (\<lambda>agent. api_key (model_client agent)) (participants (build_team m))
     = [''your-key-here'', ''your-key-here'']
   \<and> map (\<lambda>agent. model (model_client agent)) (participants (build_team m)) = [m, m]"
  by (simp add: build_team_def Let_def search_agent_def summarizer_agent_def)

theorem build_team_api_key_witness:
  "map (\<lambda>agent. api_key (model_client agent)) (participants (build_team ''gpt-4o''))
     = [''your-key-here'', ''your-key-here'']"
  using build_team_api_key [of "''gpt-4o''"]
  by simp

text \<open>
  C10. \<open>run_litrev\<close> yields a frame for a message of the team's stream if and only if the
  message is a \<open>TextMessage\<close>: each text message gives its one frame, every other
  message (tool call request, tool result, any other event, the task result) gives none,
  and the generator ends as the stream ends.
\<close>

theorem run_litrev_text_only:
  "yielded (run_litrev topic num_papers m run_stream)
     = concat (map (\<lambda>msg. if is_TextMessage msg then [source msg @ '': '' @ content msg] else [])
         (yielded (run_stream (build_team m) (task_prompt topic num_papers))))
   \<and> raised (run_litrev topic num_papers m run_stream)
     = raised (run_stream (build_team m) (task_prompt topic num_papers))"
proof -
  have "map frame_of (filter is_TextMessage msgs)
          = concat (map (\<lambda>msg. if is_TextMessage msg then [source msg @ '': '' @ content msg] else []) msgs)"
    for msgs
    by (induction msgs) (simp_all add: frame_of_def)
  then show ?thesis
    by (simp add: run_litrev_def yielded_litrev_frames raised_litrev_frames)
qed

theorem run_litrev_text_only_witness:
  "yielded (run_litrev ''topic'' 3 ''gpt-4o-mini'' tool_stream)
     = [''user: topic'', ''search_agent: []'', ''summarizer_agent: # Review'']"
  using run_litrev_text_only [of "''topic''" 3 "''gpt-4o-mini''" tool_stream]
  by (simp add: tool_stream_def)




subsection \<open>The page\<close>

text \<open>
  C3. With an empty topic the script stops after drawing its controls, whether or not
  the button was pressed: \<open>run_litrev\<close> is not called.
\<close>

theorem frontend_empty_topic:
  "query w = [] \<Longrightarrow>
     frontend w env = (None, start_page) \<and> pipeline_calls (snd (frontend w env)) = []"
  by (simp add: frontend_def start_page_def)

theorem frontend_empty_topic_witness:
  "query blank_request = [] \<and> clicked blank_request
   \<and> frontend blank_request retry_environment = (None, start_page)
   \<and> pipeline_calls (snd (frontend blank_request retry_environment)) = []"
  using frontend_empty_topic [of blank_request retry_environment]
  by (simp add: blank_request_def start_page_def)




end
